theory Spec2Isabelle
  imports Main "HOL-Library.Word"
begin

section \<open>The PyFS publisher of hyde (hyde/ext/publishers/pyfs.py)\<close>

text \<open>
  The module publishes a rendered site to a remote filesystem reached through
  PyFilesystem. The model follows the source function by function. Exceptions are
  values of the type \<open>error\<close> and every fallible operation returns \<open>error + 'a\<close>,
  with \<open>Inl\<close> for the exception that was raised.
\<close>

subsection \<open>Exceptions and byte strings\<close>

datatype error =
    ValueError string
  | AttributeError
  | TypeError
  | ResourceNotFound
  | DirectoryExpected
  | FileExpected
  | IllegalBackReference
  | RemoteError string

type_synonym byte = "8 word"
type_synonym bytes = "byte list"

subsection \<open>Settings and \<open>PyFS.initialize\<close>\<close>

text \<open>
  The values a setting can hold, with Python's truth value and the test
  \<open>isinstance(v, basestring)\<close>. An attribute that the settings object does not have
  is \<open>None\<close> in the record below; \<open>getattr(settings, name, False)\<close> then gives
  \<open>False\<close>.
\<close>

datatype pyval = PyNone | PyBool bool | PyInt int | PyStr string | PyList "pyval list"

fun truthy :: "pyval \<Rightarrow> bool" where
  "truthy PyNone = False"
| "truthy (PyBool b) = b"
| "truthy (PyInt i) = (i \<noteq> 0)"
| "truthy (PyStr s) = (s \<noteq> [])"
| "truthy (PyList vs) = (vs \<noteq> [])"

fun is_basestring :: "pyval \<Rightarrow> bool" where
  "is_basestring (PyStr s) = True"
| "is_basestring v = False"

record settings =
  s_url :: string
  s_check_mtime :: "pyval option"
  s_check_etag :: "pyval option"

definition getattr_default :: "pyval option \<Rightarrow> pyval \<Rightarrow> pyval" where
  "getattr_default attr dflt = (case attr of None \<Rightarrow> dflt | Some v \<Rightarrow> v)"

text \<open>
  What \<open>initialize\<close> does to the outside world, in order: printing, reading a line,
  asking for a password, opening the remote filesystem.
\<close>

datatype io = Print string | Input | Getpass string | OpenFs string

text \<open>
  The outside world of \<open>initialize\<close>: the line \<open>input()\<close> returns, the password
  \<open>getpass.getpass\<close> returns, \<open>fs.open_fs\<close>, and the operator \<open>%\<close> of a string and a
  dictionary.
\<close>

record 'fs env =
  input :: string
  getpass :: string
  open_fs :: "string \<Rightarrow> error + 'fs"
  percent :: "string \<Rightarrow> (string \<times> string) list \<Rightarrow> error + string"

text \<open>The attributes of the publisher (\<open>self\<close>).\<close>

record 'fs pyfs =
  settings :: settings
  url :: string
  check_mtime :: pyval
  check_etag :: pyval
  fs :: 'fs

fun startswith :: "string \<Rightarrow> string \<Rightarrow> bool" where
  "startswith s [] = True"
| "startswith [] (p # ps) = False"
| "startswith (c # cs) (p # ps) = (c = p \<and> startswith cs ps)"

text \<open>\<open>pat in s\<close> on strings.\<close>

fun contains :: "string \<Rightarrow> string \<Rightarrow> bool" where
  "contains pat [] = (pat = [])"
| "contains pat (c # cs) = (startswith (c # cs) pat \<or> contains pat cs)"

text \<open>
  The characters that \<open>str.strip()\<close> removes, among the 256 characters of the
  type \<open>char\<close>: tab to carriage return, the four separators \<open>0x1C\<close> to \<open>0x1F\<close>,
  the space, \<open>0x85\<close> and \<open>0xA0\<close>.
\<close>

definition is_space :: "char \<Rightarrow> bool" where
  "is_space c =
     (c \<in> set [CHR 0x09, CHR 0x0A, CHR 0x0B, CHR 0x0C, CHR 0x0D,
                CHR 0x1C, CHR 0x1D, CHR 0x1E, CHR 0x1F, CHR '' '', CHR 0x85, CHR 0xA0])"

definition strip :: "string \<Rightarrow> string" where
  "strip s = rev (dropWhile is_space (rev (dropWhile is_space s)))"

definition prompt_for_credentials ::
  "'fs env \<Rightarrow> string \<Rightarrow> io list \<times> (error + string)" where
  "prompt_for_credentials env self_url =
     (let ask_user = contains ''%(username)s'' self_url;
          ask_pass = contains ''%(password)s'' self_url;
          credentials =
            (if ask_user then [(''username'', strip (input env))] else []) @
            (if ask_pass then [(''password'', getpass env)] else []);
          trace =
            (if ask_user then [Print ''Username: '', Input] else []) @
            (if ask_pass then [Getpass ''Password: ''] else [])
      in (trace,
          if credentials \<noteq> [] then percent env self_url credentials else Inr self_url))"

definition initialize :: "settings \<Rightarrow> 'fs env \<Rightarrow> io list \<times> (error + 'fs pyfs)" where
  "initialize stg env =
     (let mt = getattr_default (s_check_mtime stg) (PyBool False);
          et = getattr_default (s_check_etag stg) (PyBool False)
      in if truthy et \<and> \<not> is_basestring et
         then ([], Inl (ValueError ''check_etag must name the etag algorithm''))
         else
           (case prompt_for_credentials env (s_url stg) of
              (trace, Inl e) \<Rightarrow> (trace, Inl e)
            | (trace, Inr u) \<Rightarrow>
                (case open_fs env u of
                   Inl e \<Rightarrow> (trace @ [OpenFs u], Inl e)
                 | Inr remote \<Rightarrow>
                     (trace @ [OpenFs u],
                      Inr \<lparr> settings = stg, url = u, check_mtime = mt,
                            check_etag = et, fs = remote \<rparr>))))"

subsection \<open>Paths: \<open>fs.path.join\<close>\<close>

text \<open>
  \<open>pathjoin\<close> is \<open>fs.path.join\<close> of PyFilesystem, which the source calls with two
  arguments. It is written out here with its helpers \<open>normpath\<close> and \<open>abspath\<close>:
  an argument that starts with a slash restarts the path and makes it absolute,
  the parts are joined with slashes and normalised, and an absolute result keeps
  its leading slash.
\<close>

text \<open>\<open>s.split(sep)\<close> for a separator of one character.\<close>

fun split_on :: "char \<Rightarrow> string \<Rightarrow> string list" where
  "split_on sep [] = [[]]"
| "split_on sep (c # cs) =
     (if c = sep then [] # split_on sep cs
      else (case split_on sep cs of
              [] \<Rightarrow> [[c]]
            | w # ws \<Rightarrow> (c # w) # ws))"

text \<open>\<open>sep.join(parts)\<close>.\<close>

fun join_with :: "string \<Rightarrow> string list \<Rightarrow> string" where
  "join_with sep [] = []"
| "join_with sep [x] = x"
| "join_with sep (x # y # ys) = x @ sep @ join_with sep (y # ys)"

definition rstrip_slash :: "string \<Rightarrow> string" where
  "rstrip_slash s = rev (dropWhile (\<lambda>c. c = CHR ''/'') (rev s))"

text \<open>
  The regular expression of \<open>normpath\<close> finds a component \<open>.\<close> or \<open>..\<close>, or two
  slashes in a row.
\<close>

definition requires_normalization :: "string \<Rightarrow> bool" where
  "requires_normalization p =
     (contains ''//'' p \<or>
      (\<exists>c \<in> set (split_on CHR ''/'' p). c = ''.'' \<or> c = ''..''))"

text \<open>
  The loop of \<open>normpath\<close> over the components; \<open>None\<close> is the \<open>IndexError\<close> of
  popping from the empty list.
\<close>

fun norm_components :: "string list \<Rightarrow> string list \<Rightarrow> string list option" where
  "norm_components components [] = Some components"
| "norm_components components (c # cs) =
     (if c = [] \<or> c = ''.'' \<or> c = ''..''
      then (if c = ''..''
            then (if components = [] then None
                  else norm_components (butlast components) cs)
            else norm_components components cs)
      else norm_components (components @ [c]) cs)"

definition normpath :: "string \<Rightarrow> error + string" where
  "normpath p =
     (if p = [] \<or> p = ''/'' then Inr p
      else if \<not> requires_normalization p then Inr (rstrip_slash p)
      else (case norm_components [] (split_on CHR ''/'' p) of
              None \<Rightarrow> Inl IllegalBackReference
            | Some components \<Rightarrow>
                Inr ((if startswith p ''/'' then ''/'' else []) @
                     join_with ''/'' components)))"

definition abspath :: "string \<Rightarrow> string" where
  "abspath p = (if \<not> startswith p ''/'' then ''/'' @ p else p)"

text \<open>
  The loop of \<open>join\<close> over its arguments, on the pair of the flag \<open>absolute\<close> and
  the list \<open>relpaths\<close>.
\<close>

fun join_collect :: "bool \<times> string list \<Rightarrow> string list \<Rightarrow> bool \<times> string list" where
  "join_collect acc [] = acc"
| "join_collect (absolute, relpaths) (p # ps) =
     (if p \<noteq> []
      then (if hd p = CHR ''/''
            then join_collect (True, [p]) ps
            else join_collect (absolute, relpaths @ [p]) ps)
      else join_collect (absolute, relpaths) ps)"

definition join_paths :: "string list \<Rightarrow> error + string" where
  "join_paths paths =
     (case join_collect (False, []) paths of
        (absolute, relpaths) \<Rightarrow>
          (case normpath (join_with ''/'' relpaths) of
             Inl e \<Rightarrow> Inl e
           | Inr p \<Rightarrow> Inr (if absolute then abspath p else p)))"

definition pathjoin :: "string \<Rightarrow> string \<Rightarrow> error + string" where
  "pathjoin a b = join_paths [a, b]"

subsection \<open>The filesystems\<close>

text \<open>
  An \<open>Info\<close> object with the namespaces \<open>basic\<close> and \<open>details\<close>: the name of the
  entry and its modification time, which a backend may leave out (\<open>None\<close>).
\<close>

record info =
  name :: string
  modified :: "int option"

text \<open>One step of \<open>walk\<close>: the path of a directory and the files directly in it.\<close>

record step =
  path :: string
  files :: "info list"

text \<open>
  The local deploy tree, an \<open>OSFS\<close>, is only read: \<open>walk()\<close> gives its steps,
  \<open>getinfo\<close> the metadata of a path and \<open>open(path, "rb")\<close> the bytes of a file.
\<close>

record osfs =
  walk :: "step list"
  getinfo :: "string \<Rightarrow> error + info"
  open_rb :: "string \<Rightarrow> error + bytes"

text \<open>
  The remote filesystem is whatever \<open>open_fs\<close> returned. The publisher calls four
  of its methods: \<open>makedir(path, recreate=True)\<close>,
  \<open>filterdir(path, exclude_dirs=['*'], namespaces=['basic', 'details'])\<close>,
  \<open>writefile(path, f)\<close> and \<open>remove(path)\<close>. Each takes the state of the remote
  side and fails or returns its result.
\<close>

record 'fs fs_ops =
  makedir :: "string \<Rightarrow> 'fs \<Rightarrow> error + 'fs"
  filterdir :: "string \<Rightarrow> 'fs \<Rightarrow> error + info list"
  writefile :: "string \<Rightarrow> bytes \<Rightarrow> 'fs \<Rightarrow> error + 'fs"
  remove :: "string \<Rightarrow> 'fs \<Rightarrow> error + 'fs"

subsection \<open>\<open>PyFS.publish\<close>\<close>

text \<open>The lines that \<open>publish\<close> logs, in order.\<close>

datatype event =
    MakingDirectory string
  | SkippingMtime string
  | Uploading string
  | Removing string

text \<open>
  The \<open>for ... else\<close> loop that looks for the remote entry of a local file name:
  the first entry with that name, or \<open>None\<close>.
\<close>

fun find_info :: "string \<Rightarrow> info list \<Rightarrow> info option" where
  "find_info filenm [] = None"
| "find_info filenm (i # infos) =
     (if name i = filenm then Some i else find_info filenm infos)"

text \<open>
  \<open>info.modified > local_mtime\<close> on two modification times; comparing \<open>None\<close> with
  a time raises \<open>TypeError\<close>.
\<close>

fun mtime_gt :: "int option \<Rightarrow> int option \<Rightarrow> error + bool" where
  "mtime_gt (Some r) (Some l) = Inr (r > l)"
| "mtime_gt r l = Inl TypeError"

text \<open>
  The upload of one file: the log line, then
  \<open>with deploy_fs.open(filepath, "rb") as f: self.fs.writefile(filepath, f)\<close>.
\<close>

definition upload ::
  "'fs fs_ops \<Rightarrow> osfs \<Rightarrow> string \<Rightarrow> 'fs \<times> event list \<Rightarrow> error + 'fs \<times> event list" where
  "upload ops deploy_fs filepath st =
     (case open_rb deploy_fs filepath of
        Inl e \<Rightarrow> Inl e
      | Inr f \<Rightarrow>
          (case writefile ops filepath f (fst st) of
             Inl e \<Rightarrow> Inl e
           | Inr remote \<Rightarrow> Inr (remote, snd st @ [Uploading filepath])))"

text \<open>The body of the loop over the local file names.\<close>

definition process_local ::
  "'fs fs_ops \<Rightarrow> osfs \<Rightarrow> pyval \<Rightarrow> string \<Rightarrow> info list \<Rightarrow> string \<Rightarrow>
   'fs \<times> event list \<Rightarrow> error + 'fs \<times> event list" where
  "process_local ops deploy_fs self_check_mtime dirnm remote_fileinfos filenm st =
     (case pathjoin dirnm filenm of
        Inl e \<Rightarrow> Inl e
      | Inr filepath \<Rightarrow>
          (case find_info filenm remote_fileinfos of
             None \<Rightarrow> upload ops deploy_fs filepath st
           | Some i \<Rightarrow>
               (if truthy self_check_mtime
                then (case getinfo deploy_fs filepath of
                        Inl e \<Rightarrow> Inl e
                      | Inr linfo \<Rightarrow>
                          (case mtime_gt (modified i) (modified linfo) of
                             Inl e \<Rightarrow> Inl e
                           | Inr newer \<Rightarrow>
                               (if newer
                                then Inr (fst st, snd st @ [SkippingMtime filepath])
                                else upload ops deploy_fs filepath st)))
                else upload ops deploy_fs filepath st)))"

fun process_locals ::
  "'fs fs_ops \<Rightarrow> osfs \<Rightarrow> pyval \<Rightarrow> string \<Rightarrow> info list \<Rightarrow> string list \<Rightarrow>
   'fs \<times> event list \<Rightarrow> error + 'fs \<times> event list" where
  "process_locals ops deploy_fs mt dirnm remote_fileinfos [] st = Inr st"
| "process_locals ops deploy_fs mt dirnm remote_fileinfos (filenm # filenms) st =
     (case process_local ops deploy_fs mt dirnm remote_fileinfos filenm st of
        Inl e \<Rightarrow> Inl e
      | Inr st' \<Rightarrow> process_locals ops deploy_fs mt dirnm remote_fileinfos filenms st')"

text \<open>
  The loop over the remote entries: \<open>filepath = pathjoin(dirnm, info.name)\<close>, and
  the file is removed \<open>if filepath not in local_filenms\<close>.
\<close>

fun remove_remotes ::
  "'fs fs_ops \<Rightarrow> string \<Rightarrow> string list \<Rightarrow> info list \<Rightarrow>
   'fs \<times> event list \<Rightarrow> error + 'fs \<times> event list" where
  "remove_remotes ops dirnm local_filenms [] st = Inr st"
| "remove_remotes ops dirnm local_filenms (i # infos) st =
     (case pathjoin dirnm (name i) of
        Inl e \<Rightarrow> Inl e
      | Inr filepath \<Rightarrow>
          (if filepath \<notin> set local_filenms
           then (case remove ops filepath (fst st) of
                   Inl e \<Rightarrow> Inl e
                 | Inr remote \<Rightarrow>
                     remove_remotes ops dirnm local_filenms infos
                       (remote, snd st @ [Removing filepath]))
           else remove_remotes ops dirnm local_filenms infos st))"

text \<open>The body of the loop over the steps of the walk.\<close>

definition publish_step ::
  "'fs fs_ops \<Rightarrow> osfs \<Rightarrow> pyval \<Rightarrow> step \<Rightarrow> 'fs \<times> event list \<Rightarrow> error + 'fs \<times> event list" where
  "publish_step ops deploy_fs mt stp st =
     (let dirnm = path stp;
          local_filenms = map name (files stp)
      in case makedir ops dirnm (fst st) of
           Inl e \<Rightarrow> Inl e
         | Inr remote \<Rightarrow>
             (case filterdir ops dirnm remote of
                Inl e \<Rightarrow> Inl e
              | Inr remote_fileinfos \<Rightarrow>
                  (case process_locals ops deploy_fs mt dirnm remote_fileinfos local_filenms
                          (remote, snd st @ [MakingDirectory dirnm]) of
                     Inl e \<Rightarrow> Inl e
                   | Inr st' \<Rightarrow>
                       remove_remotes ops dirnm local_filenms remote_fileinfos st')))"

fun publish_steps ::
  "'fs fs_ops \<Rightarrow> osfs \<Rightarrow> pyval \<Rightarrow> step list \<Rightarrow> 'fs \<times> event list \<Rightarrow>
   error + 'fs \<times> event list" where
  "publish_steps ops deploy_fs mt [] st = Inr st"
| "publish_steps ops deploy_fs mt (stp # stps) st =
     (case publish_step ops deploy_fs mt stp st of
        Inl e \<Rightarrow> Inl e
      | Inr st' \<Rightarrow> publish_steps ops deploy_fs mt stps st')"

text \<open>
  \<open>publish\<close>, after the call of \<open>Publisher.publish\<close> of the base class, which is
  outside this module: the walk over the deploy tree. It returns the remote
  filesystem it leaves and the lines it logged, or the exception that stopped
  it.
\<close>

definition publish ::
  "'fs fs_ops \<Rightarrow> 'fs pyfs \<Rightarrow> osfs \<Rightarrow> error + 'fs \<times> event list" where
  "publish ops self deploy_fs =
     publish_steps ops deploy_fs (check_mtime self) (walk deploy_fs) (fs self, [])"

subsection \<open>A filesystem in memory\<close>

text \<open>
  A backend to run \<open>publish\<close> on, after PyFilesystem's \<open>MemoryFS\<close>: the directories
  besides the root, the files by their absolute path, and the clock that stamps
  a file when it is written.
\<close>

record mfile =
  content :: bytes
  mtime :: "int option"

record memfs =
  m_dirs :: "string list"
  m_files :: "(string \<times> mfile) list"
  m_clock :: int

text \<open>\<open>fs.path.dirname\<close> and \<open>fs.path.basename\<close>, the two halves of \<open>fs.path.split\<close>.\<close>

definition dirname :: "string \<Rightarrow> string" where
  "dirname p =
     (if CHR ''/'' \<notin> set p then []
      else (let h = rev (drop 1 (dropWhile (\<lambda>c. c \<noteq> CHR ''/'') (rev p)))
            in if h = [] then ''/'' else h))"

definition basename :: "string \<Rightarrow> string" where
  "basename p = rev (takeWhile (\<lambda>c. c \<noteq> CHR ''/'') (rev p))"

definition m_isdir :: "memfs \<Rightarrow> string \<Rightarrow> bool" where
  "m_isdir m p = (p = ''/'' \<or> p \<in> set (m_dirs m))"

definition m_isfile :: "memfs \<Rightarrow> string \<Rightarrow> bool" where
  "m_isfile m p = (map_of (m_files m) p \<noteq> None)"

definition m_listing :: "memfs \<Rightarrow> string \<Rightarrow> info list" where
  "m_listing m d =
     map (\<lambda>e. \<lparr> name = basename (fst e), modified = mtime (snd e) \<rparr>)
       (filter (\<lambda>e. dirname (fst e) = d) (m_files m))"

definition m_makedir :: "string \<Rightarrow> memfs \<Rightarrow> error + memfs" where
  "m_makedir p m =
     (if m_isdir m p then Inr m
      else if \<not> m_isdir m (dirname p) then Inl ResourceNotFound
      else if m_isfile m p then Inl DirectoryExpected
      else Inr (m\<lparr> m_dirs := m_dirs m @ [p] \<rparr>))"

definition m_filterdir :: "string \<Rightarrow> memfs \<Rightarrow> error + info list" where
  "m_filterdir p m =
     (if m_isdir m p then Inr (m_listing m p)
      else if m_isfile m p then Inl DirectoryExpected
      else Inl ResourceNotFound)"

definition m_writefile :: "string \<Rightarrow> bytes \<Rightarrow> memfs \<Rightarrow> error + memfs" where
  "m_writefile p f m =
     (if \<not> m_isdir m (dirname p) then Inl ResourceNotFound
      else if m_isdir m p then Inl FileExpected
      else Inr (m\<lparr> m_files :=
                    filter (\<lambda>e. fst e \<noteq> p) (m_files m) @
                    [(p, \<lparr> content = f, mtime = Some (m_clock m) \<rparr>)] \<rparr>))"

definition m_remove :: "string \<Rightarrow> memfs \<Rightarrow> error + memfs" where
  "m_remove p m =
     (if m_isdir m p then Inl FileExpected
      else if \<not> m_isfile m p then Inl ResourceNotFound
      else Inr (m\<lparr> m_files := filter (\<lambda>e. fst e \<noteq> p) (m_files m) \<rparr>))"

definition memfs_ops :: "memfs fs_ops" where
  "memfs_ops = \<lparr> makedir = m_makedir, filterdir = m_filterdir,
                 writefile = m_writefile, remove = m_remove \<rparr>"

text \<open>
  The same tree read as the local deploy tree: the walk visits the root and then
  the directories in the order of \<open>m_dirs\<close>.
\<close>

definition m_getinfo :: "memfs \<Rightarrow> string \<Rightarrow> error + info" where
  "m_getinfo m p =
     (case map_of (m_files m) p of
        None \<Rightarrow> Inl ResourceNotFound
      | Some f \<Rightarrow> Inr \<lparr> name = basename p, modified = mtime f \<rparr>)"

definition m_open_rb :: "memfs \<Rightarrow> string \<Rightarrow> error + bytes" where
  "m_open_rb m p =
     (case map_of (m_files m) p of
        None \<Rightarrow> Inl ResourceNotFound
      | Some f \<Rightarrow> Inr (content f))"

definition osfs_of :: "memfs \<Rightarrow> osfs" where
  "osfs_of m =
     \<lparr> walk = map (\<lambda>d. \<lparr> path = d, files = m_listing m d \<rparr>) (''/'' # m_dirs m),
       getinfo = m_getinfo m,
       open_rb = m_open_rb m \<rparr>"

subsection \<open>\<open>PyFS._calculate_etag\<close>\<close>

text \<open>
  A hash algorithm of \<open>hashlib\<close>: the constructor gives a fresh hasher, \<open>update\<close>
  feeds bytes into it, and \<open>hexdigest()\<close>, called without an argument as the
  source does, reads the digest. For the algorithms of variable digest length
  (\<open>shake_128\<close>, \<open>shake_256\<close>) \<open>hexdigest\<close> needs the length, and the call without
  it raises \<open>TypeError\<close>.
\<close>

record 'h hash_alg =
  h_new :: 'h
  h_update :: "'h \<Rightarrow> bytes \<Rightarrow> 'h"
  h_hexdigest :: "'h \<Rightarrow> error + string"

text \<open>
  The module \<open>hashlib\<close> is a table from attribute names to attributes; \<open>getattr\<close>
  on a name that is not in the table raises \<open>AttributeError\<close>. The source calls
  the attribute without arguments. An attribute is the constructor of an
  algorithm, or something that cannot be called without arguments (\<open>new\<close>,
  \<open>pbkdf2_hmac\<close>, \<open>algorithms_guaranteed\<close>), where the call raises \<open>TypeError\<close>, or
  something that can be and returns an object that is no hasher (\<open>__dir__\<close>),
  where \<open>update\<close> or \<open>hexdigest\<close> then raises \<open>AttributeError\<close>.
\<close>

datatype 'h hashlib_attr =
    Constructor "'h hash_alg"
  | NeedsArguments
  | NoHasher

text \<open>\<open>str.lower\<close> on the ASCII letters.\<close>

definition lower_char :: "char \<Rightarrow> char" where
  "lower_char c =
     (case map_of (zip ''ABCDEFGHIJKLMNOPQRSTUVWXYZ'' ''abcdefghijklmnopqrstuvwxyz'') c of
        Some l \<Rightarrow> l
      | None \<Rightarrow> c)"

definition lower :: "string \<Rightarrow> string" where
  "lower s = map lower_char s"

text \<open>
  A file opened for reading in binary mode: the bytes not yet read. \<open>f.read(n)\<close>
  returns the next \<open>n\<close> bytes (fewer at the end of the file, none after it) and
  advances the file.
\<close>

definition read :: "nat \<Rightarrow> bytes \<Rightarrow> bytes \<times> bytes" where
  "read n f = (take n f, drop n f)"

text \<open>
  The loop \<open>while data: hasher.update(data); data = f.read(1024 * 64)\<close>, on the
  hasher, the chunk read last and the file.
\<close>

function etag_loop :: "'h hash_alg \<Rightarrow> 'h \<Rightarrow> bytes \<Rightarrow> bytes \<Rightarrow> 'h" where
  "etag_loop alg hasher data f =
     (if data \<noteq> []
      then etag_loop alg (h_update alg hasher data)
             (fst (read (1024 * 64) f)) (snd (read (1024 * 64) f))
      else hasher)"
  by pat_completeness auto
termination
  by (relation "measure (\<lambda>(alg, hasher, data, f). length data + length f)")
     (auto simp: read_def min_def)

declare etag_loop.simps [simp del]

text \<open>
  \<open>self.check_etag.lower()\<close> needs a string, and \<open>getattr(hashlib, name)\<close> a name
  that \<open>hashlib\<close> has; both raise \<open>AttributeError\<close> otherwise. The call of the
  attribute and the final \<open>hexdigest()\<close> can raise as described above.
\<close>

definition calculate_etag ::
  "(string \<Rightarrow> 'h hashlib_attr option) \<Rightarrow> pyval \<Rightarrow> bytes \<Rightarrow> error + string" where
  "calculate_etag hashlib self_check_etag f =
     (case self_check_etag of
        PyStr nm \<Rightarrow>
          (case hashlib (lower nm) of
             None \<Rightarrow> Inl AttributeError
           | Some NeedsArguments \<Rightarrow> Inl TypeError
           | Some NoHasher \<Rightarrow> Inl AttributeError
           | Some (Constructor alg) \<Rightarrow>
               h_hexdigest alg
                 (etag_loop alg (h_new alg) (fst (read (1024 * 64) f))
                    (snd (read (1024 * 64) f))))
      | _ \<Rightarrow> Inl AttributeError)"

text \<open>
  A small algorithm in the shape of the \<open>hashlib\<close> ones, used to run the code: the
  hasher is the exclusive-or of the bytes fed so far, the digest its hexadecimal
  writing. A second one, in the shape of \<open>shake_128\<close>, hashes in the same way and
  has a \<open>hexdigest\<close> that needs a length.
\<close>

definition hex_digit :: "nat \<Rightarrow> char" where
  "hex_digit n = ''0123456789abcdef'' ! n"

definition xor8 :: "byte hash_alg" where
  "xor8 = \<lparr> h_new = 0,
            h_update = (\<lambda>h bs. foldl (\<lambda>a b. xor a b) h bs),
            h_hexdigest =
              (\<lambda>h. Inr [hex_digit (unat h div 16), hex_digit (unat h mod 16)]) \<rparr>"

definition shake_xor8 :: "byte hash_alg" where
  "shake_xor8 = xor8 \<lparr> h_hexdigest := (\<lambda>h. Inl TypeError) \<rparr>"

definition toy_hashlib :: "string \<Rightarrow> byte hashlib_attr option" where
  "toy_hashlib nm =
     (if nm = ''xor8'' then Some (Constructor xor8)
      else if nm = ''shake_xor8'' then Some (Constructor shake_xor8)
      else if nm = ''new'' then Some NeedsArguments
      else if nm = ''__dir__'' then Some NoHasher
      else None)"

subsection \<open>Sample trees and settings\<close>

text \<open>
  Small inputs to run the code on. A publisher as \<open>initialize\<close> leaves it, for a
  URL without placeholders, with the given \<open>check_mtime\<close> and remote filesystem.
\<close>

definition sample_self :: "pyval \<Rightarrow> 'fs \<Rightarrow> 'fs pyfs" where
  "sample_self mt remote =
     \<lparr> settings = \<lparr> s_url = ''mem://site'', s_check_mtime = Some mt, s_check_etag = None \<rparr>,
       url = ''mem://site'', check_mtime = mt, check_etag = PyBool False, fs = remote \<rparr>"

definition flat_tree :: "(string \<times> mfile) list \<Rightarrow> int \<Rightarrow> memfs" where
  "flat_tree fl clock = \<lparr> m_dirs = [], m_files = fl, m_clock = clock \<rparr>"

definition mk_file :: "bytes \<Rightarrow> int \<Rightarrow> mfile" where
  "mk_file c t = \<lparr> content = c, mtime = Some t \<rparr>"

text \<open>One file on both sides, and one file that is only remote.\<close>

definition local_keep :: memfs where
  "local_keep = flat_tree [(''/keep.txt'', mk_file [1] 5)] 0"

definition remote_keep_old :: memfs where
  "remote_keep_old =
     flat_tree [(''/keep.txt'', mk_file [1] 3), (''/old.txt'', mk_file [9] 3)] 10"

text \<open>Two local files, the first of them already on the remote side.\<close>

definition local_ab :: memfs where
  "local_ab = flat_tree [(''/a.txt'', mk_file [1] 5), (''/b.txt'', mk_file [2] 5)] 0"

definition remote_a :: memfs where
  "remote_a = flat_tree [(''/a.txt'', mk_file [1] 3)] 10"

text \<open>
  The file \<open>a.txt\<close> with content \<open>X\<close> and modification time 1 locally, with content
  \<open>Y\<close> and the later modification time 2 remotely.
\<close>

definition local_x :: memfs where
  "local_x = flat_tree [(''/a.txt'', mk_file [0x58] 1)] 0"

definition remote_newer :: memfs where
  "remote_newer = flat_tree [(''/a.txt'', mk_file [0x59] 2)] 10"

text \<open>The same file with the older copy on the remote side.\<close>

definition local_new :: memfs where
  "local_new = flat_tree [(''/a.txt'', mk_file [0x58] 5)] 0"


text \<open>The same file with a remote copy of the same modification time.\<close>

definition remote_same :: memfs where
  "remote_same = flat_tree [(''/a.txt'', mk_file [0x59] 5)] 10"

text \<open>An empty remote side whose clock is later than every local file.\<close>

definition remote_empty :: memfs where
  "remote_empty = flat_tree [] 10"

text \<open>A local tree with one file in a subdirectory.\<close>

definition local_sub :: memfs where
  "local_sub = \<lparr> m_dirs = [''/sub''], m_files = [(''/sub/a.txt'', mk_file [1] 5)], m_clock = 0 \<rparr>"

text \<open>
  A backend whose \<open>makedir\<close> reports success without creating anything, as one
  that has no directories of its own may; its listing of a directory that does
  not exist fails.
\<close>

definition lazy_ops :: "memfs fs_ops" where
  "lazy_ops = \<lparr> makedir = (\<lambda>p m. Inr m), filterdir = m_filterdir,
                writefile = m_writefile, remove = m_remove \<rparr>"

text \<open>
  An outside world in which the user types \<open>alice\<close>, \<open>open_fs\<close> connects to the
  empty remote side, and \<open>%\<close> puts each value in the place of its \<open>%(key)s\<close>.
\<close>

fun replace_all :: "string \<Rightarrow> string \<Rightarrow> string \<Rightarrow> string" where
  "replace_all pat new [] = []"
| "replace_all pat new (c # cs) =
     (if pat \<noteq> [] \<and> startswith (c # cs) pat
      then new @ replace_all pat new (drop (length pat - 1) cs)
      else c # replace_all pat new cs)"

definition substitute :: "string \<Rightarrow> (string \<times> string) list \<Rightarrow> string" where
  "substitute s creds =
     foldl (\<lambda>acc kv. replace_all (''%('' @ fst kv @ '')s'') (snd kv) acc) s creds"

definition sample_env :: "memfs env" where
  "sample_env = \<lparr> input = ''alice '', getpass = ''secret'',
                  open_fs = (\<lambda>u. Inr remote_empty),
                  percent = (\<lambda>u creds. Inr (substitute u creds)) \<rparr>"

definition settings_unknown_algorithm :: settings where
  "settings_unknown_algorithm =
     \<lparr> s_url = ''mem://site'', s_check_mtime = None, s_check_etag = Some (PyStr ''nosuchhash'') \<rparr>"

definition settings_etag_number :: settings where
  "settings_etag_number =
     \<lparr> s_url = ''mem://site'', s_check_mtime = None, s_check_etag = Some (PyInt 1) \<rparr>"

definition settings_plain :: settings where
  "settings_plain =
     \<lparr> s_url = ''mem://site'', s_check_mtime = None, s_check_etag = None \<rparr>"

section \<open>Properties\<close>

lemmas run_defs =
  publish_def publish_step_def process_local_def upload_def
  pathjoin_def join_paths_def normpath_def requires_normalization_def
  rstrip_slash_def abspath_def
  memfs_ops_def lazy_ops_def osfs_of_def m_makedir_def m_filterdir_def m_writefile_def
  m_remove_def m_isdir_def m_isfile_def m_listing_def m_getinfo_def m_open_rb_def
  dirname_def basename_def sample_self_def flat_tree_def mk_file_def

subsection \<open>The deletion pass\<close>

lemma pathjoin_absolute:
  "startswith dirnm ''/'' \<Longrightarrow> pathjoin dirnm nm = Inr p \<Longrightarrow> startswith p ''/''"
  by (cases dirnm; cases nm)
     (auto simp: pathjoin_def join_paths_def abspath_def split: sum.splits if_splits)

text \<open>
  The test of the deletion pass compares the joined path with the bare local
  names. The walk gives absolute directory paths, so the joined path starts with
  a slash, which no file name does: the local names have no influence on what
  is removed.
\<close>

lemma remove_remotes_ignores_local_names:
  assumes "startswith dirnm ''/''"
    and "\<forall>n \<in> set local_filenms. \<not> startswith n ''/''"
  shows "remove_remotes ops dirnm local_filenms infos st =
         remove_remotes ops dirnm [] infos st"
proof (induction infos arbitrary: st)
  case Nil
  show ?case by simp
next
  case (Cons i infos)
  show ?case
  proof (cases "pathjoin dirnm (name i)")
    case (Inl e)
    then show ?thesis by simp
  next
    case (Inr filepath)
    from pathjoin_absolute [OF assms(1) Inr] assms(2)
    have "filepath \<notin> set local_filenms" by auto
    with Inr Cons.IH show ?thesis by (simp split: sum.splits)
  qed
qed

text \<open>
  C1. The deletion pass is specified to remove a listed remote entry exactly
  when its name is not a local file name of the directory, and to keep the
  entries whose name is one. The code does otherwise: on the root directory with
  \<open>keep.txt\<close> on both sides and \<open>old.txt\<close> only remotely, \<open>publish\<close> uploads
  \<open>keep.txt\<close> and then removes both remote entries, and the remote side ends
  up empty.
\<close>

theorem publish_removes_matching_entry:
  "publish memfs_ops (sample_self (PyBool False) remote_keep_old) (osfs_of local_keep) =
     Inr (flat_tree [] 10,
          [MakingDirectory ''/'', Uploading ''/keep.txt'',
           Removing ''/keep.txt'', Removing ''/old.txt''])"
  by (simp add: run_defs local_keep_def remote_keep_old_def)

text \<open>
  C2. After a pass that returns without error, the remote file names of every
  visited directory are specified to be the local ones. The code does
  otherwise: with \<open>a.txt\<close> and \<open>b.txt\<close> locally and \<open>a.txt\<close> already remote,
  \<open>publish\<close> returns without error and leaves only \<open>b.txt\<close> in the remote root.
\<close>

theorem publish_leaves_names_unequal:
  "publish memfs_ops (sample_self (PyBool False) remote_a) (osfs_of local_ab) =
     Inr (flat_tree [(''/b.txt'', mk_file [2] 10)] 10,
          [MakingDirectory ''/'', Uploading ''/a.txt'', Uploading ''/b.txt'',
           Removing ''/a.txt'']) \<and>
   map name (m_listing (flat_tree [(''/b.txt'', mk_file [2] 10)] 10) ''/'') = [''b.txt''] \<and>
   map name (m_listing local_ab ''/'') = [''a.txt'', ''b.txt'']"
  by (simp add: run_defs local_ab_def remote_a_def)

text \<open>
  C3. In the mtime-skip scenario (\<open>a.txt\<close> local with time 1, remote with the
  later time 2, \<open>check_mtime\<close> on) the file is specified not to be uploaded
  again and the remote content to stay as it was. \<open>publish\<close> does skip the
  upload, and then its deletion pass removes the remote file.
\<close>

theorem publish_mtime_skip_then_remove:
  "publish memfs_ops (sample_self (PyBool True) remote_newer) (osfs_of local_x) =
     Inr (flat_tree [] 10,
          [MakingDirectory ''/'', SkippingMtime ''/a.txt'', Removing ''/a.txt''])"
  by (simp add: run_defs local_x_def remote_newer_def)

text \<open>
  C4. A second run with no local change, with \<open>check_mtime\<close> on, is specified to
  upload and delete nothing, or at least to leave the remote tree as the first
  run left it. The code does otherwise. The first run on an empty remote side
  uploads \<open>a.txt\<close>; the second run, on what the first one left, skips the upload
  and removes \<open>a.txt\<close>. When the remote side stamps the upload with the time of
  the local file instead of a later one, the second run uploads \<open>a.txt\<close> again
  and removes it as well.
\<close>

theorem publish_twice_not_idempotent:
  "publish memfs_ops (sample_self (PyBool True) remote_empty) (osfs_of local_x) =
     Inr (flat_tree [(''/a.txt'', mk_file [0x58] 10)] 10,
          [MakingDirectory ''/'', Uploading ''/a.txt'']) \<and>
   publish memfs_ops
     (sample_self (PyBool True) (flat_tree [(''/a.txt'', mk_file [0x58] 10)] 10))
     (osfs_of local_x) =
     Inr (flat_tree [] 10,
          [MakingDirectory ''/'', SkippingMtime ''/a.txt'', Removing ''/a.txt'']) \<and>
   publish memfs_ops (sample_self (PyBool True) (flat_tree [] 1)) (osfs_of local_x) =
     Inr (flat_tree [(''/a.txt'', mk_file [0x58] 1)] 1,
          [MakingDirectory ''/'', Uploading ''/a.txt'']) \<and>
   publish memfs_ops
     (sample_self (PyBool True) (flat_tree [(''/a.txt'', mk_file [0x58] 1)] 1))
     (osfs_of local_x) =
     Inr (flat_tree [] 1,
          [MakingDirectory ''/'', Uploading ''/a.txt'', Removing ''/a.txt''])"
  by (simp add: run_defs local_x_def remote_empty_def)

subsection \<open>The decision to upload\<close>

text \<open>
  C5. For a local file that has a remote entry of the same name, with
  \<open>check_mtime\<close> on and both modification times known, the step for that file
  skips the upload (it leaves the remote side as it is and logs the skip)
  exactly when the remote time is strictly later than the local one; when the
  remote time is earlier or equal, the step is the upload of the file to the
  same path.
\<close>

theorem process_local_mtime:
  assumes "pathjoin dirnm filenm = Inr filepath"
    and "find_info filenm remote_fileinfos = Some i"
    and "truthy mt"
    and "modified i = Some rt"
    and "getinfo deploy_fs filepath = Inr linfo"
    and "modified linfo = Some lt"
  shows "(process_local ops deploy_fs mt dirnm remote_fileinfos filenm st =
            Inr (fst st, snd st @ [SkippingMtime filepath])) = (rt > lt) \<and>
         (\<not> rt > lt \<longrightarrow>
            process_local ops deploy_fs mt dirnm remote_fileinfos filenm st =
              upload ops deploy_fs filepath st)"
  using assms
  by (auto simp: process_local_def upload_def split: sum.splits)

theorem process_local_mtime_witness:
  "process_local memfs_ops (osfs_of local_new) (PyBool True) ''/''
     (m_listing remote_same ''/'') ''a.txt'' (remote_same, []) =
   Inr (flat_tree [(''/a.txt'', mk_file [0x58] 10)] 10, [Uploading ''/a.txt'']) \<and>
   process_local memfs_ops (osfs_of local_x) (PyBool True) ''/''
     (m_listing remote_newer ''/'') ''a.txt'' (remote_newer, []) =
   Inr (remote_newer, [SkippingMtime ''/a.txt''])"
proof -
  have p: "pathjoin ''/'' ''a.txt'' = Inr ''/a.txt''"
    by (simp add: run_defs)
  have f1: "find_info ''a.txt'' (m_listing remote_same ''/'') =
              Some \<lparr> name = ''a.txt'', modified = Some 5 \<rparr>"
    by (simp add: run_defs remote_same_def)
  have g1: "getinfo (osfs_of local_new) ''/a.txt'' =
              Inr \<lparr> name = ''a.txt'', modified = Some 5 \<rparr>"
    by (simp add: run_defs local_new_def)
  have f2: "find_info ''a.txt'' (m_listing remote_newer ''/'') =
              Some \<lparr> name = ''a.txt'', modified = Some 2 \<rparr>"
    by (simp add: run_defs remote_newer_def)
  have g2: "getinfo (osfs_of local_x) ''/a.txt'' =
              Inr \<lparr> name = ''a.txt'', modified = Some 1 \<rparr>"
    by (simp add: run_defs local_x_def)
  have same: "process_local memfs_ops (osfs_of local_new) (PyBool True) ''/''
                (m_listing remote_same ''/'') ''a.txt'' (remote_same, []) =
              upload memfs_ops (osfs_of local_new) ''/a.txt'' (remote_same, [])"
    using process_local_mtime
            [of "''/''" "''a.txt''" "''/a.txt''" "m_listing remote_same ''/''"
                "\<lparr> name = ''a.txt'', modified = Some 5 \<rparr>" "PyBool True" 5
                "osfs_of local_new" "\<lparr> name = ''a.txt'', modified = Some 5 \<rparr>" 5
                memfs_ops "(remote_same, [])", OF p f1 _ _ g1]
    by simp
  have newer: "process_local memfs_ops (osfs_of local_x) (PyBool True) ''/''
                 (m_listing remote_newer ''/'') ''a.txt'' (remote_newer, []) =
               Inr (remote_newer, [SkippingMtime ''/a.txt''])"
    using process_local_mtime
            [of "''/''" "''a.txt''" "''/a.txt''" "m_listing remote_newer ''/''"
                "\<lparr> name = ''a.txt'', modified = Some 2 \<rparr>" "PyBool True" 2
                "osfs_of local_x" "\<lparr> name = ''a.txt'', modified = Some 1 \<rparr>" 1
                memfs_ops "(remote_newer, [])", OF p f2 _ _ g2]
    by simp
  have up: "upload memfs_ops (osfs_of local_new) ''/a.txt'' (remote_same, []) =
            Inr (flat_tree [(''/a.txt'', mk_file [0x58] 10)] 10, [Uploading ''/a.txt''])"
    by (simp add: run_defs local_new_def remote_same_def)
  from same newer up show ?thesis by simp
qed

subsection \<open>Listing the remote directory\<close>

text \<open>
  C8, as specified: a listing that fails because the directory does not exist
  counts as empty and the pass goes on. The code has no such case: on the
  backend whose \<open>makedir\<close> creates nothing, the listing of \<open>/sub\<close> fails and
  \<open>publish\<close> stops with that failure.
\<close>

theorem publish_listing_failure_is_fatal:
  "publish lazy_ops (sample_self (PyBool False) remote_empty) (osfs_of local_sub) =
     Inl ResourceNotFound"
  by (simp add: run_defs local_sub_def remote_empty_def)

text \<open>
  C8, amended. \<open>publish\<close> creates the remote directory before it lists it, and a
  failure of the listing is not caught: the step fails with the same error. On
  the filesystem in memory, creating a directory that exists succeeds and
  changes nothing, and after a successful \<open>makedir\<close> the listing succeeds.
\<close>

theorem listing_failure_propagates:
  "(makedir ops (path stp) (fst st) = Inr remote \<longrightarrow>
    filterdir ops (path stp) remote = Inl e \<longrightarrow>
    publish_step ops deploy_fs mt stp st = Inl e) \<and>
   (m_isdir m p \<longrightarrow> m_makedir p m = Inr m) \<and>
   (m_makedir p m = Inr m' \<longrightarrow> m_filterdir p m' = Inr (m_listing m p))"
  by (auto simp: publish_step_def Let_def m_makedir_def m_filterdir_def m_isdir_def
        m_listing_def split: if_splits)

theorem listing_failure_propagates_witness:
  "publish_step lazy_ops (osfs_of local_sub) (PyBool False)
     \<lparr> path = ''/sub'', files = [\<lparr> name = ''a.txt'', modified = Some 5 \<rparr>] \<rparr>
     (remote_empty, []) = Inl ResourceNotFound \<and>
   m_makedir ''/sub'' local_sub = Inr local_sub \<and>
   m_filterdir ''/sub'' (remote_empty\<lparr> m_dirs := [''/sub''] \<rparr>) = Inr []"
proof -
  have 1: "makedir lazy_ops ''/sub'' remote_empty = Inr remote_empty"
    by (simp add: lazy_ops_def)
  have 2: "filterdir lazy_ops ''/sub'' remote_empty = Inl ResourceNotFound"
    by (simp add: run_defs remote_empty_def)
  have 3: "m_isdir local_sub ''/sub''"
    by (simp add: m_isdir_def local_sub_def)
  have 4: "m_makedir ''/sub'' remote_empty = Inr (remote_empty\<lparr> m_dirs := [''/sub''] \<rparr>)"
    by (simp add: run_defs remote_empty_def)
  have 5: "m_listing remote_empty ''/sub'' = []"
    by (simp add: run_defs remote_empty_def)
  show ?thesis
    using listing_failure_propagates
            [of lazy_ops "\<lparr> path = ''/sub'', files = [\<lparr> name = ''a.txt'', modified = Some 5 \<rparr>] \<rparr>"
                "(remote_empty, [])" remote_empty ResourceNotFound "osfs_of local_sub"
                "PyBool False" local_sub "''/sub''" "remote_empty\<lparr> m_dirs := [''/sub''] \<rparr>"]
          listing_failure_propagates
            [of lazy_ops "\<lparr> path = ''/sub'', files = [] \<rparr>"
                "(remote_empty, [])" remote_empty ResourceNotFound "osfs_of local_sub"
                "PyBool False" remote_empty "''/sub''" "remote_empty\<lparr> m_dirs := [''/sub''] \<rparr>"]
          1 2 3 4 5
    by simp
qed

subsection \<open>What a step can remove\<close>







subsection \<open>Validation in \<open>initialize\<close>\<close>

text \<open>
  C6, as specified: an algorithm name that \<open>hashlib\<close> does not have is refused
  at setup, before the remote filesystem is opened. The code has no such test:
  for the name \<open>nosuchhash\<close>, which the table does not have, \<open>initialize\<close> raises
  nothing, opens the remote filesystem and returns the publisher.
\<close>

theorem initialize_accepts_nosuchhash:
  "toy_hashlib (lower ''nosuchhash'') = None \<and>
   initialize settings_unknown_algorithm sample_env =
     ([OpenFs ''mem://site''],
      Inr \<lparr> settings = settings_unknown_algorithm, url = ''mem://site'',
            check_mtime = PyBool False, check_etag = PyStr ''nosuchhash'',
            fs = remote_empty \<rparr>)"
  by (simp add: toy_hashlib_def lower_def lower_char_def initialize_def
        settings_unknown_algorithm_def sample_env_def prompt_for_credentials_def
        getattr_default_def Let_def)

text \<open>
  C6, amended. \<open>initialize\<close> does not look the algorithm name up. When
  \<open>check_etag\<close> is a string that \<open>hashlib\<close> does not have, \<open>initialize\<close> prompts for
  the credentials and opens the remote filesystem as for any other string, and
  on success returns the publisher with that name; the unknown name raises
  \<open>AttributeError\<close> only in \<open>_calculate_etag\<close>.
\<close>

theorem initialize_unknown_algorithm:
  assumes "s_check_etag stg = Some (PyStr nm)"
    and "hashlib (lower nm) = None"
    and "prompt_for_credentials env (s_url stg) = (trace, Inr u)"
    and "open_fs env u = Inr remote"
  shows "initialize stg env =
           (trace @ [OpenFs u],
            Inr \<lparr> settings = stg, url = u,
                  check_mtime = getattr_default (s_check_mtime stg) (PyBool False),
                  check_etag = PyStr nm, fs = remote \<rparr>) \<and>
         calculate_etag hashlib (PyStr nm) f = Inl AttributeError"
  using assms
  by (simp add: initialize_def getattr_default_def calculate_etag_def)

theorem initialize_unknown_algorithm_witness:
  "initialize
     \<lparr> s_url = ''ftp://%(username)s@host/site'', s_check_mtime = Some (PyBool True),
       s_check_etag = Some (PyStr ''SHA3000'') \<rparr> sample_env =
     ([Print ''Username: '', Input, OpenFs ''ftp://alice@host/site''],
      Inr \<lparr> settings =
              \<lparr> s_url = ''ftp://%(username)s@host/site'', s_check_mtime = Some (PyBool True),
                s_check_etag = Some (PyStr ''SHA3000'') \<rparr>,
            url = ''ftp://alice@host/site'', check_mtime = PyBool True,
            check_etag = PyStr ''SHA3000'', fs = remote_empty \<rparr>) \<and>
   calculate_etag toy_hashlib (PyStr ''SHA3000'') [1, 2] = Inl AttributeError"
proof -
  let ?stg = "\<lparr> s_url = ''ftp://%(username)s@host/site'', s_check_mtime = Some (PyBool True),
                s_check_etag = Some (PyStr ''SHA3000'') \<rparr>"
  have 1: "s_check_etag ?stg = Some (PyStr ''SHA3000'')" by simp
  have 2: "toy_hashlib (lower ''SHA3000'') = None"
    by (simp add: toy_hashlib_def lower_def lower_char_def)
  have 3: "prompt_for_credentials sample_env (s_url ?stg) =
             ([Print ''Username: '', Input], Inr ''ftp://alice@host/site'')"
    by (simp add: prompt_for_credentials_def sample_env_def substitute_def strip_def
          is_space_def)
  have 4: "open_fs sample_env ''ftp://alice@host/site'' = Inr remote_empty"
    by (simp add: sample_env_def)
  show ?thesis
    using initialize_unknown_algorithm
            [of ?stg "''SHA3000''" toy_hashlib sample_env "[Print ''Username: '', Input]"
                "''ftp://alice@host/site''" remote_empty "[1, 2]", OF 1 2 3 4]
    by (simp add: getattr_default_def)
qed

text \<open>
  C10. When \<open>check_etag\<close> is set to a value that is true and is not a string,
  \<open>initialize\<close> raises \<open>ValueError\<close> and has done nothing before: no prompt and no
  \<open>open_fs\<close>. When \<open>check_etag\<close> is not set, \<open>initialize\<close> does not raise that
  error, and the publisher it returns has \<open>check_etag = False\<close>.
\<close>

theorem initialize_check_etag:
  "(s_check_etag stg = Some v \<and> truthy v \<and> \<not> is_basestring v \<longrightarrow>
      initialize stg env =
        ([], Inl (ValueError ''check_etag must name the etag algorithm''))) \<and>
   (s_check_etag stg = None \<longrightarrow>
      initialize stg env \<noteq>
        ([], Inl (ValueError ''check_etag must name the etag algorithm'')) \<and>
      (\<forall>self. snd (initialize stg env) = Inr self \<longrightarrow> check_etag self = PyBool False))"
  by (auto simp: initialize_def getattr_default_def prompt_for_credentials_def Let_def
      split: prod.splits sum.splits if_splits)

theorem initialize_check_etag_witness:
  "initialize settings_etag_number sample_env =
     ([], Inl (ValueError ''check_etag must name the etag algorithm'')) \<and>
   initialize settings_plain sample_env \<noteq>
     ([], Inl (ValueError ''check_etag must name the etag algorithm'')) \<and>
   snd (initialize settings_plain sample_env) =
     Inr \<lparr> settings = settings_plain, url = ''mem://site'', check_mtime = PyBool False,
           check_etag = PyBool False, fs = remote_empty \<rparr>"
proof -
  have a: "s_check_etag settings_etag_number = Some (PyInt 1) \<and> truthy (PyInt 1) \<and>
           \<not> is_basestring (PyInt 1)"
    by (simp add: settings_etag_number_def)
  have b: "s_check_etag settings_plain = None"
    by (simp add: settings_plain_def)
  have c: "snd (initialize settings_plain sample_env) =
             Inr \<lparr> settings = settings_plain, url = ''mem://site'', check_mtime = PyBool False,
                   check_etag = PyBool False, fs = remote_empty \<rparr>"
    by (simp add: initialize_def settings_plain_def sample_env_def
          prompt_for_credentials_def getattr_default_def)
  show ?thesis
    using initialize_check_etag [of settings_etag_number "PyInt 1" sample_env]
          initialize_check_etag [of settings_plain "PyInt 1" sample_env] a b c
    by simp
qed

subsection \<open>Chunked hashing\<close>

lemma etag_loop_Nil: "etag_loop alg hasher [] f = hasher"
  by (subst etag_loop.simps) simp

lemma etag_loop_step:
  "data \<noteq> [] \<Longrightarrow>
   etag_loop alg hasher data f =
     etag_loop alg (h_update alg hasher data) (take 65536 f) (drop 65536 f)"
  by (subst etag_loop.simps) (simp add: read_def)

lemma etag_loop_whole:
  "(\<forall>h a b. h_update alg (h_update alg h a) b = h_update alg h (a @ b)) \<Longrightarrow>
   (data = [] \<longrightarrow> f = []) \<Longrightarrow>
   etag_loop alg hasher data f =
     (if data = [] then hasher else h_update alg hasher (data @ f))"
proof (induction alg hasher data f rule: etag_loop.induct)
  case (1 alg hasher data f)
  note cat = "1.prems"(1)
  show ?case
  proof (cases "data = []")
    case True
    then show ?thesis by (simp add: etag_loop_Nil)
  next
    case False
    have pre: "fst (read (1024 * 64) f) = [] \<longrightarrow> snd (read (1024 * 64) f) = []"
      by (auto simp: read_def)
    note IH = "1.IH" [OF False cat pre]
    show ?thesis
    proof (cases "take 65536 f = []")
      case True
      then have "f = []" by auto
      with False show ?thesis
        by (simp add: etag_loop_step etag_loop_Nil)
    next
      case nonempty: False
      with IH have "etag_loop alg (h_update alg hasher data) (take 65536 f) (drop 65536 f) =
            h_update alg (h_update alg hasher data) (take 65536 f @ drop 65536 f)"
        by (simp add: read_def)
      with False cat show ?thesis by (simp add: etag_loop_step)
    qed
  qed
qed

text \<open>
  C7, as specified: for every digest algorithm that \<open>hashlib\<close> supports and every
  content, the loop of 64 KiB reads yields the hex digest of the whole content.
  This fails for an algorithm of variable digest length, as \<open>shake_128\<close>: it
  hashes as the others do, but \<open>hexdigest()\<close> without a length raises
  \<open>TypeError\<close>, so \<open>_calculate_etag\<close> yields no digest.
\<close>

theorem calculate_etag_shake_raises:
  "toy_hashlib (lower ''SHAKE_XOR8'') = Some (Constructor shake_xor8) \<and>
   h_update shake_xor8 (h_new shake_xor8) [1, 2, 4, 0x30] = 0x37 \<and>
   calculate_etag toy_hashlib (PyStr ''SHAKE_XOR8'') [1, 2, 4, 0x30] = Inl TypeError"
  by (simp add: toy_hashlib_def lower_def lower_char_def calculate_etag_def shake_xor8_def
        xor8_def)

text \<open>
  C7, amended. For every name under which \<open>hashlib\<close> has the constructor of an
  algorithm, and every file content of any length (empty, shorter or longer than
  64 KiB), \<open>_calculate_etag\<close> with its loop of 64 KiB reads ends as \<open>hexdigest()\<close>
  does on a hasher that was fed the whole content in one \<open>update\<close>: with the
  same hex digest when \<open>hexdigest()\<close> returns one, with the same exception when
  it raises. The algorithm is any one that keeps the contract of \<open>hashlib\<close>:
  feeding \<open>a\<close> and then \<open>b\<close> is feeding \<open>a + b\<close>, and feeding nothing leaves the
  hasher as it is.
\<close>

theorem calculate_etag_chunking:
  assumes "hashlib (lower nm) = Some (Constructor alg)"
    and "\<forall>h a b. h_update alg (h_update alg h a) b = h_update alg h (a @ b)"
    and "\<forall>h. h_update alg h [] = h"
  shows "calculate_etag hashlib (PyStr nm) f =
           h_hexdigest alg (h_update alg (h_new alg) f)"
proof -
  have "etag_loop alg (h_new alg) (take 65536 f) (drop 65536 f) =
          h_update alg (h_new alg) f"
  proof (cases "take 65536 f = []")
    case True
    then have "f = []" by auto
    with assms(3) show ?thesis by (simp add: etag_loop_Nil)
  next
    case False
    have "take 65536 f = [] \<longrightarrow> drop 65536 f = []" by auto
    from etag_loop_whole [OF assms(2) this] False show ?thesis by simp
  qed
  with assms(1) show ?thesis by (simp add: calculate_etag_def read_def)
qed

lemma xor8_update_append:
  "h_update xor8 (h_update xor8 h a) b = h_update xor8 h (a @ b)"
  by (simp add: xor8_def)

theorem calculate_etag_chunking_witness:
  "calculate_etag toy_hashlib (PyStr ''XOR8'') [1, 2, 4, 0x30] = Inr ''37''"
proof -
  have 1: "toy_hashlib (lower ''XOR8'') = Some (Constructor xor8)"
    by (simp add: toy_hashlib_def lower_def lower_char_def)
  have 2: "\<forall>h a b. h_update xor8 (h_update xor8 h a) b = h_update xor8 h (a @ b)"
    by (simp add: xor8_update_append)
  have 3: "\<forall>h. h_update xor8 h [] = h"
    by (simp add: xor8_def)
  show ?thesis
    using calculate_etag_chunking
            [of toy_hashlib "''XOR8''" xor8 "[1, 2, 4, 0x30]", OF 1 2 3]
    by (simp add: xor8_def hex_digit_def)
qed

text \<open>
  An attribute of \<open>hashlib\<close> that cannot be called without arguments, or that
  returns no hasher, makes \<open>_calculate_etag\<close> raise as well.
\<close>

lemma calculate_etag_not_a_constructor:
  "calculate_etag toy_hashlib (PyStr ''new'') [1, 2] = Inl TypeError \<and>
   calculate_etag toy_hashlib (PyStr ''__dir__'') [1, 2] = Inl AttributeError"
  by (simp add: toy_hashlib_def lower_def lower_char_def calculate_etag_def)

end
